theory Spec2Isabelle
  imports Complex_Main
begin

section \<open>Data model\<close>

text \<open>
  The player component keeps its simulation state in three refs (\<open>velocity\<close>,
  \<open>position\<close>, \<open>onGround\<close>) and writes the camera position at the end of every
  frame. JavaScript numbers are modelled as exact reals: every theorem below is a
  statement about the arithmetic the code writes down, not about IEEE rounding.
\<close>

record Vector3 =
  X :: real
  Y :: real
  Z :: real

record Quaternion =
  qx :: real
  qy :: real
  qz :: real
  qw :: real

record MovementKeys =
  forward :: bool
  backward :: bool
  left :: bool
  right :: bool
  jump :: bool
  sprint :: bool

text \<open>\<open>type Collider = { position; size }\<close>: centre and full extents of a box.\<close>

record Collider =
  box_position :: Vector3
  box_size :: Vector3

text \<open>The pointer-lock controls object; \<open>controlsRef.current\<close> may be null.\<close>

record Controls =
  isLocked :: bool

record Camera =
  camera_position :: Vector3
  camera_quaternion :: Quaternion

record Player =
  velocity :: Vector3
  position :: Vector3
  onGround :: bool
  camera :: Camera

section \<open>Vector operations used by the component\<close>

text \<open>
  The methods of the rendering library's vector class that the component calls, each
  returning the updated vector instead of mutating the receiver.
\<close>

definition sub :: "Vector3 \<Rightarrow> Vector3 \<Rightarrow> Vector3" where
  "sub a b = \<lparr>X = X a - X b, Y = Y a - Y b, Z = Z a - Z b\<rparr>"

definition add :: "Vector3 \<Rightarrow> Vector3 \<Rightarrow> Vector3" where
  "add a b = \<lparr>X = X a + X b, Y = Y a + Y b, Z = Z a + Z b\<rparr>"

definition multiplyScalar :: "Vector3 \<Rightarrow> real \<Rightarrow> Vector3" where
  "multiplyScalar a k = \<lparr>X = X a * k, Y = Y a * k, Z = Z a * k\<rparr>"

definition divideScalar :: "Vector3 \<Rightarrow> real \<Rightarrow> Vector3" where
  "divideScalar a k = multiplyScalar a (1 / k)"

definition addScaledVector :: "Vector3 \<Rightarrow> Vector3 \<Rightarrow> real \<Rightarrow> Vector3" where
  "addScaledVector a b k = \<lparr>X = X a + X b * k, Y = Y a + Y b * k, Z = Z a + Z b * k\<rparr>"

definition setY :: "Vector3 \<Rightarrow> real \<Rightarrow> Vector3" where
  "setY a b = a\<lparr>Y := b\<rparr>"

definition lengthSq :: "Vector3 \<Rightarrow> real" where
  "lengthSq a = X a * X a + Y a * Y a + Z a * Z a"

definition length3 :: "Vector3 \<Rightarrow> real" where
  "length3 a = sqrt (lengthSq a)"

text \<open>\<open>normalize\<close> divides by \<open>length() || 1\<close>: the zero vector stays zero.\<close>

definition normalize :: "Vector3 \<Rightarrow> Vector3" where
  "normalize a = divideScalar a (if length3 a = 0 then 1 else length3 a)"

text \<open>
  Rotation of a vector by a (unit) quaternion, as the library computes it. The general
  theorems below hold for whatever this function returns; only the concrete frames with
  the default orientation evaluate it.
\<close>

definition applyQuaternion :: "Vector3 \<Rightarrow> Quaternion \<Rightarrow> Vector3" where
  "applyQuaternion v q =
     (let tx = 2 * (qy q * Z v - qz q * Y v);
          ty = 2 * (qz q * X v - qx q * Z v);
          tz = 2 * (qx q * Y v - qy q * X v)
      in \<lparr>X = X v + qw q * tx + qy q * tz - qz q * ty,
          Y = Y v + qw q * ty + qz q * tx - qx q * tz,
          Z = Z v + qw q * tz + qx q * ty - qy q * tx\<rparr>)"

section \<open>Collision detection and resolution\<close>

definition box_min :: "Collider \<Rightarrow> Vector3" where
  "box_min collider = sub (box_position collider) (multiplyScalar (box_size collider) 0.5)"

definition box_max :: "Collider \<Rightarrow> Vector3" where
  "box_max collider = add (box_position collider) (multiplyScalar (box_size collider) 0.5)"

definition intersectsBox :: "Vector3 \<Rightarrow> Collider \<Rightarrow> bool" where
  "intersectsBox point collider =
     (X point > X (box_min collider) \<and> X point < X (box_max collider) \<and>
      Y point > Y (box_min collider) \<and> Y point < Y (box_max collider) \<and>
      Z point > Z (box_min collider) \<and> Z point < Z (box_max collider))"

definition capsuleRadius :: real where
  "capsuleRadius = 0.35"

definition capsuleHeight :: real where
  "capsuleHeight = 1.7"

definition depthX :: "Vector3 \<Rightarrow> Collider \<Rightarrow> real" where
  "depthX target collider =
     min (X (box_max collider) - (X target - capsuleRadius))
         (X target + capsuleRadius - X (box_min collider))"

definition depthZ :: "Vector3 \<Rightarrow> Collider \<Rightarrow> real" where
  "depthZ target collider =
     min (Z (box_max collider) - (Z target - capsuleRadius))
         (Z target + capsuleRadius - Z (box_min collider))"

text \<open>
  The body of the loop over the colliders in \<open>resolveCollisions\<close> (lines 124-139): the candidate
  \<open>target\<close> is a local vector updated in place, \<open>velocity.current\<close> is a ref of
  the player.
\<close>

definition resolveBox :: "Collider \<Rightarrow> Vector3 \<times> Player \<Rightarrow> Vector3 \<times> Player" where
  "resolveBox collider ts =
     (case ts of (target, s) \<Rightarrow>
        if intersectsBox target collider then
          if Y target - capsuleRadius < Y (box_max collider) \<and>
             Y target + capsuleHeight > Y (box_min collider)
          then
            if depthX target collider < depthZ target collider
            then (target\<lparr>X := X target +
                     (if X target > X (box_position collider)
                      then depthX target collider else - depthX target collider)\<rparr>,
                  s\<lparr>velocity := (velocity s)\<lparr>X := 0\<rparr>\<rparr>)
            else (target\<lparr>Z := Z target +
                     (if Z target > Z (box_position collider)
                      then depthZ target collider else - depthZ target collider)\<rparr>,
                  s\<lparr>velocity := (velocity s)\<lparr>Z := 0\<rparr>\<rparr>)
          else (target, s)
        else (target, s))"

fun resolveBoxes :: "Collider list \<Rightarrow> Vector3 \<times> Player \<Rightarrow> Vector3 \<times> Player" where
  "resolveBoxes [] ts = ts"
| "resolveBoxes (collider # colliders) ts = resolveBoxes colliders (resolveBox collider ts)"

text \<open>The floor test that ends \<open>resolveCollisions\<close> (lines 142-148).\<close>

definition floorClamp :: "Vector3 \<times> Player \<Rightarrow> Vector3 \<times> Player" where
  "floorClamp ts =
     (case ts of (target, s) \<Rightarrow>
        if Y target < 1.6
        then (target\<lparr>Y := 1.6\<rparr>, s\<lparr>velocity := (velocity s)\<lparr>Y := 0\<rparr>, onGround := True\<rparr>)
        else (target, s\<lparr>onGround := False\<rparr>))"

definition resolveCollisions :: "Collider list \<Rightarrow> Vector3 \<times> Player \<Rightarrow> Vector3 \<times> Player" where
  "resolveCollisions colliders ts = floorClamp (resolveBoxes colliders ts)"

section \<open>The frame callback\<close>

definition Number :: "bool \<Rightarrow> real" where
  "Number b = (if b then 1 else 0)"

definition moveZ :: "MovementKeys \<Rightarrow> real" where
  "moveZ keys = Number (backward keys) - Number (forward keys)"

definition moveX :: "MovementKeys \<Rightarrow> real" where
  "moveX keys = Number (right keys) - Number (left keys)"

definition targetSpeed :: "MovementKeys \<Rightarrow> real" where
  "targetSpeed keys = (if sprint keys then 12 else 6)"

definition moveDirection :: "MovementKeys \<Rightarrow> Quaternion \<Rightarrow> Vector3" where
  "moveDirection keys q =
     (let tempFront = normalize (setY (applyQuaternion \<lparr>X = 0, Y = 0, Z = - 1\<rparr> q) 0);
          tempSide = normalize (setY (applyQuaternion \<lparr>X = 1, Y = 0, Z = 0\<rparr> q) 0)
      in addScaledVector (multiplyScalar tempFront (moveZ keys)) tempSide (moveX keys))"

definition currentSpeed :: "Vector3 \<Rightarrow> real" where
  "currentSpeed v = sqrt ((X v)\<^sup>2 + (Z v)\<^sup>2)"

text \<open>
  Lines 159-189 of the callback: damping, acceleration along the input direction and
  the speed clamp, on the velocity ref. The clamp is inside the branch for a held
  direction.
\<close>

definition moveVelocity :: "MovementKeys \<Rightarrow> Quaternion \<Rightarrow> real \<Rightarrow> Vector3 \<Rightarrow> Vector3" where
  "moveVelocity keys q delta v0 =
     (let acceleration = 36;
          damping = exp (- 4 * delta);
          v1 = v0\<lparr>X := X v0 * damping, Z := Z v0 * damping\<rparr>
      in if moveX keys \<noteq> 0 \<or> moveZ keys \<noteq> 0 then
           let v2 = (if lengthSq (moveDirection keys q) > 0
                     then addScaledVector v1 (normalize (moveDirection keys q))
                            (acceleration * delta)
                     else v1)
           in if currentSpeed v2 > targetSpeed keys
              then let factor = targetSpeed keys / currentSpeed v2
                   in v2\<lparr>X := X v2 * factor, Z := Z v2 * factor\<rparr>
              else v2
         else v1)"

text \<open>
  Lines 191-198: gravity and the jump, then the candidate position \<open>nextPosition\<close>,
  returned with the refs as they are before \<open>resolveCollisions\<close> runs.
\<close>

definition integrate :: "MovementKeys \<Rightarrow> real \<Rightarrow> Player \<Rightarrow> Vector3 \<times> Player" where
  "integrate keys delta s =
     (let gravity = 50;
          jumpStrength = 10;
          v = moveVelocity keys (camera_quaternion (camera s)) delta (velocity s);
          s1 = s\<lparr>velocity := v\<lparr>Y := Y v - gravity * delta\<rparr>\<rparr>;
          s2 = (if jump keys \<and> onGround s1
                then s1\<lparr>velocity := (velocity s1)\<lparr>Y := jumpStrength\<rparr>, onGround := False\<rparr>
                else s1)
      in (addScaledVector (position s2) (velocity s2) delta, s2))"

text \<open>
  The callback (lines 153-203): the early return when pointer lock is not engaged, then
  the integration, the collision resolution, and the commit of the candidate to the
  position ref and to the camera.
\<close>

definition gateEngaged :: "Controls option \<Rightarrow> bool" where
  "gateEngaged controls = (case controls of None \<Rightarrow> False | Some c \<Rightarrow> isLocked c)"

definition useFrame ::
    "Collider list \<Rightarrow> Controls option \<Rightarrow> MovementKeys \<Rightarrow> real \<Rightarrow> Player \<Rightarrow> Player" where
  "useFrame colliders controls keys delta s =
     (if \<not> gateEngaged controls then s
      else case resolveCollisions colliders (integrate keys delta s) of
             (nextPosition, s') \<Rightarrow>
               s'\<lparr>position := nextPosition,
                  camera := (camera s')\<lparr>camera_position := nextPosition\<rparr>\<rparr>)"

section \<open>The scene and the host's frame loop\<close>

definition createCollider :: "real \<times> real \<times> real \<Rightarrow> real \<times> real \<times> real \<Rightarrow> Collider" where
  "createCollider p sz =
     (case (p, sz) of ((px, py, pz), (sx, sy, sz)) \<Rightarrow>
        \<lparr>box_position = \<lparr>X = px, Y = py, Z = pz\<rparr>, box_size = \<lparr>X = sx, Y = sy, Z = sz\<rparr>\<rparr>)"

text \<open>The collider list built in \<open>FPSCanvas\<close>.\<close>

definition FPSCanvas_colliders :: "Collider list" where
  "FPSCanvas_colliders =
     [createCollider (0, 1.5, - 10) (8, 3, 2),
      createCollider (- 12, 2.5, - 24) (6, 5, 8),
      createCollider (14, 3.5, - 18) (10, 7, 10),
      createCollider (- 6, 1.5, - 3) (2, 3, 8),
      createCollider (9, 1.5, 4) (12, 3, 2),
      createCollider (2, 5, - 38) (18, 10, 6)]"

text \<open>
  The refs as \<open>Player\<close> creates them, with the camera the canvas is given (position
  \<open>[0, 1.6, 6]\<close>, default orientation).
\<close>

definition Player_initial :: Player where
  "Player_initial =
     \<lparr>velocity = \<lparr>X = 0, Y = 0, Z = 0\<rparr>,
      position = \<lparr>X = 0, Y = 1.6, Z = 6\<rparr>,
      onGround = False,
      camera = \<lparr>camera_position = \<lparr>X = 0, Y = 1.6, Z = 6\<rparr>,
                camera_quaternion = \<lparr>qx = 0, qy = 0, qz = 0, qw = 1\<rparr>\<rparr>\<rparr>"

definition INITIAL_KEYS :: MovementKeys where
  "INITIAL_KEYS = \<lparr>forward = False, backward = False, left = False, right = False,
                   jump = False, sprint = False\<rparr>"









text \<open>
  Numbers are exact reals here and doubles in the code. Where the code lands on a value
  only up to the rounding of its arithmetic (a rescaled speed, a pushed-out coordinate),
  the statements below allow a relative slack of one part in \<open>10\<^sup>1\<^sup>2\<close>, some three
  orders of magnitude above the accumulated rounding of a few double operations; in
  exact arithmetic the slack is not used.
\<close>

definition roundingSlack :: real where
  "roundingSlack = 1 / 10 ^ 12"

text \<open>
  The distance from a point inside a box to the nearest of its four vertical faces, and
  the magnitude of the coordinates involved, to which the slack is relative.
\<close>

definition nearestFaceDistance :: "Vector3 \<Rightarrow> Collider \<Rightarrow> real" where
  "nearestFaceDistance point collider =
     min (min (X point - X (box_min collider)) (X (box_max collider) - X point))
         (min (Z point - Z (box_min collider)) (Z (box_max collider) - Z point))"

definition boxScale :: "Vector3 \<Rightarrow> Collider \<Rightarrow> real" where
  "boxScale point collider =
     \<bar>X point\<bar> + \<bar>Z point\<bar> + \<bar>X (box_min collider)\<bar> + \<bar>X (box_max collider)\<bar> +
     \<bar>Z (box_min collider)\<bar> + \<bar>Z (box_max collider)\<bar> + 1"


text \<open>
  The detection the specification describes, for comparison with \<open>intersectsBox\<close>: the
  point inflated by the capsule radius (and the capsule height upwards) overlaps the box.
\<close>

definition inflatedOverlap :: "Vector3 \<Rightarrow> Collider \<Rightarrow> bool" where
  "inflatedOverlap point collider =
     (X point - capsuleRadius < X (box_max collider) \<and>
      X point + capsuleRadius > X (box_min collider) \<and>
      Y point - capsuleRadius < Y (box_max collider) \<and>
      Y point + capsuleHeight > Y (box_min collider) \<and>
      Z point - capsuleRadius < Z (box_max collider) \<and>
      Z point + capsuleRadius > Z (box_min collider))"

section \<open>The gate\<close>

text \<open>
  C8. When pointer lock is not engaged (no controls object, or \<open>isLocked\<close> false) the
  frame callback returns at once: position, velocity, grounded flag and camera pose are
  the ones it was given, whatever the keys and the elapsed time.
\<close>

theorem gate_off_unchanged:
  "useFrame colliders None keys delta s = s \<and>
   useFrame colliders (Some \<lparr>isLocked = False\<rparr>) keys delta s = s"
  by (simp add: useFrame_def gateEngaged_def)


lemma useFrame_engaged:
  "useFrame colliders (Some \<lparr>isLocked = True\<rparr>) keys delta s =
     (case floorClamp (resolveBoxes colliders (integrate keys delta s)) of
        (nextPosition, s') \<Rightarrow>
          s'\<lparr>position := nextPosition,
             camera := (camera s')\<lparr>camera_position := nextPosition\<rparr>\<rparr>)"
  by (simp add: useFrame_def gateEngaged_def resolveCollisions_def)

section \<open>What the boxes can change\<close>

lemma resolveBox_keeps:
  "resolveBox c (t, s) = (t', s') \<Longrightarrow>
     Y t' = Y t \<and> Y (velocity s') = Y (velocity s) \<and> onGround s' = onGround s \<and>
     position s' = position s \<and> camera s' = camera s"
  by (auto simp: resolveBox_def split: if_splits)

lemma resolveBoxes_keeps:
  "resolveBoxes cs (t, s) = (t', s') \<Longrightarrow>
     Y t' = Y t \<and> Y (velocity s') = Y (velocity s) \<and> onGround s' = onGround s \<and>
     position s' = position s \<and> camera s' = camera s"
proof (induction cs arbitrary: t s)
  case Nil
  then show ?case by simp
next
  case (Cons c cs)
  obtain t1 s1 where r: "resolveBox c (t, s) = (t1, s1)"
    by (cases "resolveBox c (t, s)")
  from Cons.prems r have "resolveBoxes cs (t1, s1) = (t', s')" by simp
  from Cons.IH[OF this] resolveBox_keeps[OF r] show ?case by simp
qed

lemma resolveBoxes_clear:
  "list_all (\<lambda>c. \<not> intersectsBox t c) cs \<Longrightarrow> resolveBoxes cs (t, s) = (t, s)"
  by (induction cs) (simp_all add: resolveBox_def)

lemma useFrame_clear:
  assumes "integrate keys delta s = (t, s1)"
    and "list_all (\<lambda>c. \<not> intersectsBox t c) colliders"
  shows "useFrame colliders (Some \<lparr>isLocked = True\<rparr>) keys delta s =
     (case floorClamp (t, s1) of
        (nextPosition, s') \<Rightarrow>
          s'\<lparr>position := nextPosition,
             camera := (camera s')\<lparr>camera_position := nextPosition\<rparr>\<rparr>)"
  by (simp add: useFrame_engaged assms(1) resolveBoxes_clear[OF assms(2)])

lemma scene_clear:
  "6 \<le> Z t \<Longrightarrow> list_all (\<lambda>c. \<not> intersectsBox t c) FPSCanvas_colliders"
  by (simp add: FPSCanvas_colliders_def createCollider_def intersectsBox_def box_max_def
      add_def multiplyScalar_def)

lemma depth_pos:
  "intersectsBox t c \<Longrightarrow> capsuleRadius < depthX t c \<and> capsuleRadius < depthZ t c"
  by (auto simp: intersectsBox_def depthX_def depthZ_def)

lemma box_mid:
  "X (box_max c) - X (box_position c) = X (box_position c) - X (box_min c) \<and>
   Z (box_max c) - Z (box_position c) = Z (box_position c) - Z (box_min c)"
  by (simp add: box_min_def box_max_def sub_def add_def multiplyScalar_def)

lemma capsule_test_redundant:
  "intersectsBox t c \<Longrightarrow>
     Y t - capsuleRadius < Y (box_max c) \<and> Y t + capsuleHeight > Y (box_min c)"
  by (simp add: intersectsBox_def capsuleRadius_def capsuleHeight_def)

section \<open>Idle frames from the spawn point\<close>

lemma moveVelocity_idle:
  "moveVelocity INITIAL_KEYS q delta v0 =
     v0\<lparr>X := X v0 * exp (- 4 * delta), Z := Z v0 * exp (- 4 * delta)\<rparr>"
  by (simp add: moveVelocity_def INITIAL_KEYS_def moveX_def moveZ_def Number_def Let_def)

lemma INITIAL_KEYS_jump: "jump INITIAL_KEYS = False"
  by (simp add: INITIAL_KEYS_def)

lemma Vector3_eta: "\<lparr>X = X v, Y = Y v, Z = Z v\<rparr> = (v :: Vector3)"
  by simp

lemma first_frame:
  "useFrame FPSCanvas_colliders (Some \<lparr>isLocked = True\<rparr>) INITIAL_KEYS (1 / 60) Player_initial =
     Player_initial\<lparr>onGround := True\<rparr>"
proof -
  have i: "integrate INITIAL_KEYS (1 / 60) Player_initial =
      (\<lparr>X = 0, Y = 1.6 - 5 / 360, Z = 6\<rparr>,
       Player_initial\<lparr>velocity := \<lparr>X = 0, Y = - 5 / 6, Z = 0\<rparr>\<rparr>)"
    by (simp add: integrate_def moveVelocity_idle Let_def Player_initial_def INITIAL_KEYS_jump
        addScaledVector_def)
  have c: "list_all (\<lambda>c. \<not> intersectsBox \<lparr>X = 0, Y = 1.6 - 5 / 360, Z = 6\<rparr> c)
      FPSCanvas_colliders"
    by (rule scene_clear) simp
  show ?thesis
    unfolding useFrame_clear[OF i c] by (simp add: floorClamp_def Player_initial_def)
qed

section \<open>The floor\<close>

text \<open>
  C1. After a frame with the gate engaged, whatever the keys and the elapsed time, the
  committed position has \<open>y \<ge> 1.6\<close>; the grounded flag is true exactly when the
  candidate position of that frame had \<open>y < 1.6\<close>, and then \<open>y\<close> is 1.6 and the
  vertical velocity is zero; otherwise \<open>y\<close> and the vertical velocity are the
  candidate's.
\<close>

theorem floor_clamp_invariant:
  "1.6 \<le> Y (position (useFrame colliders (Some \<lparr>isLocked = True\<rparr>) keys delta s)) \<and>
   onGround (useFrame colliders (Some \<lparr>isLocked = True\<rparr>) keys delta s) =
     (Y (fst (integrate keys delta s)) < 1.6) \<and>
   (if Y (fst (integrate keys delta s)) < 1.6
    then Y (position (useFrame colliders (Some \<lparr>isLocked = True\<rparr>) keys delta s)) = 1.6 \<and>
         Y (velocity (useFrame colliders (Some \<lparr>isLocked = True\<rparr>) keys delta s)) = 0
    else Y (position (useFrame colliders (Some \<lparr>isLocked = True\<rparr>) keys delta s)) =
           Y (fst (integrate keys delta s)) \<and>
         Y (velocity (useFrame colliders (Some \<lparr>isLocked = True\<rparr>) keys delta s)) =
           Y (velocity (snd (integrate keys delta s))))"
proof -
  obtain t0 s0 where i: "integrate keys delta s = (t0, s0)"
    by (cases "integrate keys delta s")
  obtain t1 s1 where r: "resolveBoxes colliders (t0, s0) = (t1, s1)"
    by (cases "resolveBoxes colliders (t0, s0)")
  from resolveBoxes_keeps[OF r] have k: "Y t1 = Y t0" "Y (velocity s1) = Y (velocity s0)"
    by simp_all
  show ?thesis
    by (simp add: useFrame_engaged i r floorClamp_def k)
qed

text \<open>
  C10. The loop over the boxes never changes the candidate's \<open>y\<close>, the vertical
  velocity or the grounded flag; only the floor test does. So after a frame the grounded
  flag is set only at the floor height 1.6: no box top is ever a resting surface.
\<close>

theorem boxes_never_ground:
  "Y (fst (resolveBoxes colliders (target, s))) = Y target \<and>
   Y (velocity (snd (resolveBoxes colliders (target, s)))) = Y (velocity s) \<and>
   onGround (snd (resolveBoxes colliders (target, s))) = onGround s \<and>
   (onGround (useFrame colliders (Some \<lparr>isLocked = True\<rparr>) keys delta s) \<longrightarrow>
      Y (position (useFrame colliders (Some \<lparr>isLocked = True\<rparr>) keys delta s)) = 1.6)"
proof -
  obtain t1 s1 where r: "resolveBoxes colliders (target, s) = (t1, s1)"
    by (cases "resolveBoxes colliders (target, s)")
  obtain t0 s0 where i: "integrate keys delta s = (t0, s0)"
    by (cases "integrate keys delta s")
  obtain t2 s2 where r2: "resolveBoxes colliders (t0, s0) = (t2, s2)"
    by (cases "resolveBoxes colliders (t0, s0)")
  have "onGround (useFrame colliders (Some \<lparr>isLocked = True\<rparr>) keys delta s) \<longrightarrow>
      Y (position (useFrame colliders (Some \<lparr>isLocked = True\<rparr>) keys delta s)) = 1.6"
    by (simp add: useFrame_engaged i r2 floorClamp_def)
  with resolveBoxes_keeps[OF r] show ?thesis
    by (simp add: r)
qed

theorem boxes_never_ground_witness:
  "onGround (useFrame FPSCanvas_colliders (Some \<lparr>isLocked = True\<rparr>) INITIAL_KEYS (1 / 60)
     Player_initial) \<and>
   Y (position (useFrame FPSCanvas_colliders (Some \<lparr>isLocked = True\<rparr>) INITIAL_KEYS (1 / 60)
     Player_initial)) = 1.6"
proof -
  have g: "onGround (useFrame FPSCanvas_colliders (Some \<lparr>isLocked = True\<rparr>) INITIAL_KEYS (1 / 60)
     Player_initial)"
    by (simp add: first_frame)
  with boxes_never_ground[of FPSCanvas_colliders "position Player_initial" Player_initial
      INITIAL_KEYS "1 / 60"]
  show ?thesis by blast
qed

section \<open>A single box\<close>

lemma slack_nonneg: "0 \<le> roundingSlack * boxScale point collider"
  by (simp add: roundingSlack_def boxScale_def)

lemma depthX_exact:
  "depthX target c = capsuleRadius + min (X target - X (box_min c)) (X (box_max c) - X target)"
  by (simp add: depthX_def min_def)

lemma depthZ_exact:
  "depthZ target c = capsuleRadius + min (Z target - Z (box_min c)) (Z (box_max c) - Z target)"
  by (simp add: depthZ_def min_def)

lemma side_X:
  "(X target > X (box_position c)) = (X (box_max c) - X target < X target - X (box_min c))"
  using box_mid[of c] by linarith

lemma side_Z:
  "(Z target > Z (box_position c)) = (Z (box_max c) - Z target < Z target - Z (box_min c))"
  using box_mid[of c] by linarith

lemma resolveBoxes_single:
  assumes "intersectsBox target c"
  shows "resolveBoxes [c] (target, s) =
     (if depthX target c < depthZ target c
      then (target\<lparr>X := (if X target > X (box_position c)
                          then X (box_max c) + capsuleRadius
                          else X (box_min c) - capsuleRadius)\<rparr>,
            s\<lparr>velocity := (velocity s)\<lparr>X := 0\<rparr>\<rparr>)
      else (target\<lparr>Z := (if Z target > Z (box_position c)
                          then Z (box_max c) + capsuleRadius
                          else Z (box_min c) - capsuleRadius)\<rparr>,
            s\<lparr>velocity := (velocity s)\<lparr>Z := 0\<rparr>\<rparr>))"
proof -
  note y = capsule_test_redundant[OF assms]
  have px: "X target + (if X target > X (box_position c)
                        then depthX target c else - depthX target c) =
      (if X target > X (box_position c)
       then X (box_max c) + capsuleRadius else X (box_min c) - capsuleRadius)"
    by (simp add: depthX_exact side_X min_def)
  have pz: "Z target + (if Z target > Z (box_position c)
                        then depthZ target c else - depthZ target c) =
      (if Z target > Z (box_position c)
       then Z (box_max c) + capsuleRadius else Z (box_min c) - capsuleRadius)"
    by (simp add: depthZ_exact side_Z min_def)
  show ?thesis
    using assms y by (simp add: resolveBox_def px pz)
qed

lemma displacement_X:
  assumes "intersectsBox target c" and "depthX target c < depthZ target c"
  shows "\<bar>(if X target > X (box_position c)
            then X (box_max c) + capsuleRadius else X (box_min c) - capsuleRadius) - X target\<bar> =
         nearestFaceDistance target c + capsuleRadius"
proof -
  have in_x: "X (box_min c) < X target" "X target < X (box_max c)"
    using assms(1) by (simp_all add: intersectsBox_def)
  have lt: "min (X target - X (box_min c)) (X (box_max c) - X target) <
      min (Z target - Z (box_min c)) (Z (box_max c) - Z target)"
    using assms(2) by (simp add: depthX_exact depthZ_exact)
  then have n: "nearestFaceDistance target c =
      min (X target - X (box_min c)) (X (box_max c) - X target)"
    by (simp add: nearestFaceDistance_def)
  show ?thesis
    using in_x by (auto simp: n side_X min_def capsuleRadius_def)
qed

lemma displacement_Z:
  assumes "intersectsBox target c" and "\<not> depthX target c < depthZ target c"
  shows "\<bar>(if Z target > Z (box_position c)
            then Z (box_max c) + capsuleRadius else Z (box_min c) - capsuleRadius) - Z target\<bar> =
         nearestFaceDistance target c + capsuleRadius"
proof -
  have in_z: "Z (box_min c) < Z target" "Z target < Z (box_max c)"
    using assms(1) by (simp_all add: intersectsBox_def)
  have le: "min (Z target - Z (box_min c)) (Z (box_max c) - Z target) \<le>
      min (X target - X (box_min c)) (X (box_max c) - X target)"
    using assms(2) unfolding depthX_exact depthZ_exact by linarith
  then have n: "nearestFaceDistance target c =
      min (Z target - Z (box_min c)) (Z (box_max c) - Z target)"
    by (simp add: nearestFaceDistance_def min_def)
  show ?thesis
    using in_z by (auto simp: n side_Z min_def capsuleRadius_def)
qed

lemmas box_defs = createCollider_def box_min_def box_max_def sub_def add_def multiplyScalar_def

text \<open>
  C4 (as the code has it). For one collider and a candidate that \<open>intersectsBox\<close> detects
  inside it, \<open>resolveCollisions\<close> moves the candidate along one horizontal axis only
  and sets the velocity component of that axis to zero; the other horizontal coordinate
  and the other horizontal velocity component are unchanged. The moved coordinate is that
  of a face of that axis plus the radius 0.35 on the \<open>max\<close> side, minus the radius on
  the \<open>min\<close> side, and the displacement is the distance to the nearest of the four
  vertical faces plus the radius, so the face is a nearest one: both exactly in exact
  arithmetic, and up to rounding in the code's doubles. The height and the vertical velocity are unchanged
  only when the candidate's \<open>y\<close> is at least 1.6; below that the floor test at the end
  of \<open>resolveCollisions\<close> sets \<open>y\<close> to 1.6, the vertical velocity to zero and the
  grounded flag.
\<close>

theorem single_box_resolution:
  assumes "intersectsBox target c"
  shows
    "(Z (fst (resolveCollisions [c] (target, s))) = Z target \<and>
      X (velocity (snd (resolveCollisions [c] (target, s)))) = 0 \<and>
      Z (velocity (snd (resolveCollisions [c] (target, s)))) = Z (velocity s) \<and>
      (\<bar>X (fst (resolveCollisions [c] (target, s))) - (X (box_max c) + capsuleRadius)\<bar>
         \<le> roundingSlack * boxScale target c \<or>
       \<bar>X (fst (resolveCollisions [c] (target, s))) - (X (box_min c) - capsuleRadius)\<bar>
         \<le> roundingSlack * boxScale target c) \<and>
      \<bar>\<bar>X (fst (resolveCollisions [c] (target, s))) - X target\<bar> -
         (nearestFaceDistance target c + capsuleRadius)\<bar>
        \<le> roundingSlack * boxScale target c
      \<or>
      X (fst (resolveCollisions [c] (target, s))) = X target \<and>
      Z (velocity (snd (resolveCollisions [c] (target, s)))) = 0 \<and>
      X (velocity (snd (resolveCollisions [c] (target, s)))) = X (velocity s) \<and>
      (\<bar>Z (fst (resolveCollisions [c] (target, s))) - (Z (box_max c) + capsuleRadius)\<bar>
         \<le> roundingSlack * boxScale target c \<or>
       \<bar>Z (fst (resolveCollisions [c] (target, s))) - (Z (box_min c) - capsuleRadius)\<bar>
         \<le> roundingSlack * boxScale target c) \<and>
      \<bar>\<bar>Z (fst (resolveCollisions [c] (target, s))) - Z target\<bar> -
         (nearestFaceDistance target c + capsuleRadius)\<bar>
        \<le> roundingSlack * boxScale target c) \<and>
     Y (fst (resolveCollisions [c] (target, s))) = (if Y target < 1.6 then 1.6 else Y target) \<and>
     Y (velocity (snd (resolveCollisions [c] (target, s)))) =
       (if Y target < 1.6 then 0 else Y (velocity s)) \<and>
     onGround (snd (resolveCollisions [c] (target, s))) = (Y target < 1.6)"
proof (cases "depthX target c < depthZ target c")
  case True
  note d = displacement_X[OF assms True]
  have r: "resolveCollisions [c] (target, s) =
      floorClamp (target\<lparr>X := (if X target > X (box_position c)
                          then X (box_max c) + capsuleRadius
                          else X (box_min c) - capsuleRadius)\<rparr>,
            s\<lparr>velocity := (velocity s)\<lparr>X := 0\<rparr>\<rparr>)"
    unfolding resolveCollisions_def resolveBoxes_single[OF assms] using True by simp
  show ?thesis
    unfolding r using d slack_nonneg[of target c]
    by (simp add: floorClamp_def)
next
  case False
  note d = displacement_Z[OF assms False]
  have r: "resolveCollisions [c] (target, s) =
      floorClamp (target\<lparr>Z := (if Z target > Z (box_position c)
                          then Z (box_max c) + capsuleRadius
                          else Z (box_min c) - capsuleRadius)\<rparr>,
            s\<lparr>velocity := (velocity s)\<lparr>Z := 0\<rparr>\<rparr>)"
    unfolding resolveCollisions_def resolveBoxes_single[OF assms] using False by simp
  show ?thesis
    unfolding r using d slack_nonneg[of target c]
    by (simp add: floorClamp_def)
qed

theorem single_box_resolution_witness:
  "intersectsBox \<lparr>X = 3.5, Y = 1.6, Z = - 9.6\<rparr> (createCollider (0, 1.5, - 10) (8, 3, 2)) \<and>
   Z (fst (resolveCollisions [createCollider (0, 1.5, - 10) (8, 3, 2)]
     (\<lparr>X = 3.5, Y = 1.6, Z = - 9.6\<rparr>,
      Player_initial\<lparr>velocity := \<lparr>X = 3, Y = - 1, Z = 2\<rparr>\<rparr>))) = - 9.6 \<and>
   velocity (snd (resolveCollisions [createCollider (0, 1.5, - 10) (8, 3, 2)]
     (\<lparr>X = 3.5, Y = 1.6, Z = - 9.6\<rparr>,
      Player_initial\<lparr>velocity := \<lparr>X = 3, Y = - 1, Z = 2\<rparr>\<rparr>))) = \<lparr>X = 0, Y = - 1, Z = 2\<rparr> \<and>
   \<bar>X (fst (resolveCollisions [createCollider (0, 1.5, - 10) (8, 3, 2)]
     (\<lparr>X = 3.5, Y = 1.6, Z = - 9.6\<rparr>,
      Player_initial\<lparr>velocity := \<lparr>X = 3, Y = - 1, Z = 2\<rparr>\<rparr>))) - 4.35\<bar>
     \<le> roundingSlack * 42.1"
proof -
  have h: "intersectsBox \<lparr>X = 3.5, Y = 1.6, Z = - 9.6\<rparr> (createCollider (0, 1.5, - 10) (8, 3, 2))"
    by (simp add: intersectsBox_def box_defs)
  have r: "resolveCollisions [createCollider (0, 1.5, - 10) (8, 3, 2)]
     (\<lparr>X = 3.5, Y = 1.6, Z = - 9.6\<rparr>,
      Player_initial\<lparr>velocity := \<lparr>X = 3, Y = - 1, Z = 2\<rparr>\<rparr>) =
     (\<lparr>X = 4.35, Y = 1.6, Z = - 9.6\<rparr>,
      Player_initial\<lparr>velocity := \<lparr>X = 0, Y = - 1, Z = 2\<rparr>\<rparr>)"
    by (simp add: resolveCollisions_def resolveBox_def intersectsBox_def box_defs depthX_def
        depthZ_def capsuleRadius_def capsuleHeight_def floorClamp_def Player_initial_def)
  show ?thesis
    using h single_box_resolution[OF h,
        of "Player_initial\<lparr>velocity := \<lparr>X = 3, Y = - 1, Z = 2\<rparr>\<rparr>"]
    unfolding r by (simp add: roundingSlack_def)
qed

text \<open>
  A candidate inside the first box of the scene and below the floor height, as every
  grounded frame produces one: \<open>resolveCollisions\<close> raises it to 1.6 and sets the
  vertical velocity \<open>-1\<close> to zero.
\<close>

theorem floor_in_box_counterexample:
  "intersectsBox \<lparr>X = 3.5, Y = 1.5, Z = - 9.6\<rparr> (createCollider (0, 1.5, - 10) (8, 3, 2)) \<and>
   Y (fst (resolveCollisions [createCollider (0, 1.5, - 10) (8, 3, 2)]
     (\<lparr>X = 3.5, Y = 1.5, Z = - 9.6\<rparr>,
      Player_initial\<lparr>velocity := \<lparr>X = 3, Y = - 1, Z = 2\<rparr>\<rparr>))) = 1.6 \<and>
   Y (velocity (snd (resolveCollisions [createCollider (0, 1.5, - 10) (8, 3, 2)]
     (\<lparr>X = 3.5, Y = 1.5, Z = - 9.6\<rparr>,
      Player_initial\<lparr>velocity := \<lparr>X = 3, Y = - 1, Z = 2\<rparr>\<rparr>)))) = 0"
proof -
  obtain t1 s1 where r: "resolveBoxes [createCollider (0, 1.5, - 10) (8, 3, 2)]
     (\<lparr>X = 3.5, Y = 1.5, Z = - 9.6\<rparr>,
      Player_initial\<lparr>velocity := \<lparr>X = 3, Y = - 1, Z = 2\<rparr>\<rparr>) = (t1, s1)"
    by (cases "resolveBoxes [createCollider (0, 1.5, - 10) (8, 3, 2)]
     (\<lparr>X = 3.5, Y = 1.5, Z = - 9.6\<rparr>,
      Player_initial\<lparr>velocity := \<lparr>X = 3, Y = - 1, Z = 2\<rparr>\<rparr>)")
  from resolveBoxes_keeps[OF r] have y: "Y t1 = 1.5" by simp
  have h: "intersectsBox \<lparr>X = 3.5, Y = 1.5, Z = - 9.6\<rparr> (createCollider (0, 1.5, - 10) (8, 3, 2))"
    by (simp add: intersectsBox_def box_defs)
  show ?thesis
    unfolding resolveCollisions_def r using y h by (simp add: floorClamp_def)
qed

text \<open>
  C5 (as the code has it). When the two overlap depths are equal the comparison
  \<open>depthX < depthZ\<close> fails, so the push-out is along Z and \<open>velocity.z\<close> is the
  component set to zero: Z wins ties. The push is by the (positive) depth, towards
  larger \<open>z\<close> exactly when the candidate's \<open>z\<close> exceeds the collider centre's.
\<close>

theorem tie_resolves_along_Z:
  assumes "intersectsBox target c" and "depthX target c = depthZ target c"
  shows "resolveBoxes [c] (target, s) =
           (target\<lparr>Z := Z target + (if Z target > Z (box_position c)
                                     then depthZ target c else - depthZ target c)\<rparr>,
            s\<lparr>velocity := (velocity s)\<lparr>Z := 0\<rparr>\<rparr>) \<and>
         0 < depthZ target c"
proof -
  note y = capsule_test_redundant[OF assms(1)]
  have "0 < depthZ target c"
    using depth_pos[OF assms(1)] by (simp add: capsuleRadius_def)
  then show ?thesis
    using assms y by (simp add: resolveBox_def)
qed

theorem tie_resolves_along_Z_witness:
  "intersectsBox \<lparr>X = 3.85, Y = 1.6, Z = - 9.15\<rparr> (createCollider (0, 1.5, - 10) (8, 3, 2)) \<and>
   depthX \<lparr>X = 3.85, Y = 1.6, Z = - 9.15\<rparr> (createCollider (0, 1.5, - 10) (8, 3, 2)) =
   depthZ \<lparr>X = 3.85, Y = 1.6, Z = - 9.15\<rparr> (createCollider (0, 1.5, - 10) (8, 3, 2)) \<and>
   fst (resolveBoxes [createCollider (0, 1.5, - 10) (8, 3, 2)]
     (\<lparr>X = 3.85, Y = 1.6, Z = - 9.15\<rparr>, Player_initial)) = \<lparr>X = 3.85, Y = 1.6, Z = - 8.65\<rparr>"
proof -
  have h: "intersectsBox \<lparr>X = 3.85, Y = 1.6, Z = - 9.15\<rparr> (createCollider (0, 1.5, - 10) (8, 3, 2))"
    by (simp add: intersectsBox_def box_defs)
  have d: "depthX \<lparr>X = 3.85, Y = 1.6, Z = - 9.15\<rparr> (createCollider (0, 1.5, - 10) (8, 3, 2)) =
      depthZ \<lparr>X = 3.85, Y = 1.6, Z = - 9.15\<rparr> (createCollider (0, 1.5, - 10) (8, 3, 2))"
    by (simp add: box_defs depthX_def depthZ_def capsuleRadius_def)
  show ?thesis
    using h d tie_resolves_along_Z[OF h d, of Player_initial]
    by (simp add: box_defs depthZ_def capsuleRadius_def)
qed

text \<open>
  A tie at the first box of the scene, in exact arithmetic and in doubles alike: the
  candidate is 0.15 inside both the \<open>max x\<close> and the \<open>max z\<close> face, both depths are
  0.5; its \<open>x\<close> and \<open>velocity.x\<close> stay, \<open>z\<close> is pushed out and \<open>velocity.z\<close> is set
  to zero.
\<close>

theorem tie_break_counterexample:
  "intersectsBox \<lparr>X = 3.85, Y = 1.6, Z = - 9.15\<rparr> (createCollider (0, 1.5, - 10) (8, 3, 2)) \<and>
   depthX \<lparr>X = 3.85, Y = 1.6, Z = - 9.15\<rparr> (createCollider (0, 1.5, - 10) (8, 3, 2)) = 0.5 \<and>
   depthZ \<lparr>X = 3.85, Y = 1.6, Z = - 9.15\<rparr> (createCollider (0, 1.5, - 10) (8, 3, 2)) = 0.5 \<and>
   resolveCollisions [createCollider (0, 1.5, - 10) (8, 3, 2)]
     (\<lparr>X = 3.85, Y = 1.6, Z = - 9.15\<rparr>,
      Player_initial\<lparr>velocity := \<lparr>X = 3, Y = - 1, Z = 2\<rparr>\<rparr>) =
     (\<lparr>X = 3.85, Y = 1.6, Z = - 8.65\<rparr>,
      Player_initial\<lparr>velocity := \<lparr>X = 3, Y = - 1, Z = 0\<rparr>\<rparr>)"
  by (simp add: intersectsBox_def box_defs depthX_def depthZ_def resolveCollisions_def
      resolveBox_def floorClamp_def capsuleRadius_def capsuleHeight_def Player_initial_def)


section \<open>Detection\<close>

text \<open>
  C6 (as the code has it). Detection is \<open>intersectsBox\<close> on the candidate point itself;
  the capsule radius enters only the push-out depth. One box changes the candidate, or
  anything at all, exactly when the point is strictly inside the box: a candidate outside
  the box but within the radius of a face is left where it is.
\<close>

theorem point_test_decides:
  "(fst (resolveBoxes [c] (target, s)) \<noteq> target) = intersectsBox target c \<and>
   (resolveBoxes [c] (target, s) \<noteq> (target, s)) = intersectsBox target c"
proof (cases "intersectsBox target c")
  case True
  note y = capsule_test_redundant[OF True]
  have "0 < depthX target c" "0 < depthZ target c"
    using depth_pos[OF True] by (simp_all add: capsuleRadius_def)
  then show ?thesis
    using True y by (auto simp: resolveBox_def dest: arg_cong[where f = X] arg_cong[where f = Z])
next
  case False
  then show ?thesis by (simp add: resolveBox_def)
qed

text \<open>
  A candidate 0.2 outside the \<open>max z\<close> face of the first box of the scene: the inflated
  point overlaps the box, and the whole of \<open>resolveCollisions\<close> changes nothing.
\<close>

theorem inflated_point_counterexample:
  "inflatedOverlap \<lparr>X = 0, Y = 1.6, Z = - 8.8\<rparr> (createCollider (0, 1.5, - 10) (8, 3, 2)) \<and>
   resolveCollisions [createCollider (0, 1.5, - 10) (8, 3, 2)]
     (\<lparr>X = 0, Y = 1.6, Z = - 8.8\<rparr>, Player_initial) =
     (\<lparr>X = 0, Y = 1.6, Z = - 8.8\<rparr>, Player_initial)"
  by (simp add: inflatedOverlap_def intersectsBox_def createCollider_def box_min_def box_max_def
      sub_def add_def multiplyScalar_def resolveCollisions_def resolveBox_def floorClamp_def
      capsuleRadius_def capsuleHeight_def Player_initial_def)

section \<open>Horizontal speed\<close>























section \<open>The elapsed time\<close>






text \<open>
  C2 (as the code has it). With the gate engaged and \<open>delta = 0\<close> the frame leaves
  position and velocity as they are and writes the position to the camera, when the body
  is at or above the floor height and inside no collider, no jump fires (jump not held,
  or not grounded) and either no net direction is held or the horizontal speed is within
  the frame's cap. The grounded flag is not kept: the floor test clears it.
\<close>

theorem zero_delta_frame:
  assumes "1.6 \<le> Y (position s)"
    and "list_all (\<lambda>c. \<not> intersectsBox (position s) c) colliders"
    and "\<not> (jump keys \<and> onGround s)"
    and "(moveX keys = 0 \<and> moveZ keys = 0) \<or> currentSpeed (velocity s) \<le> targetSpeed keys"
  shows "useFrame colliders (Some \<lparr>isLocked = True\<rparr>) keys 0 s =
           s\<lparr>onGround := False, camera := (camera s)\<lparr>camera_position := position s\<rparr>\<rparr>"
proof -
  have v: "moveVelocity keys q 0 (velocity s) = velocity s" for q
    using assms(4) by (auto simp: moveVelocity_def Let_def addScaledVector_def Vector3_eta)
  have i: "integrate keys 0 s = (position s, s)"
    using assms(3) by (auto simp: integrate_def Let_def v addScaledVector_def)
  show ?thesis
    unfolding useFrame_clear[OF i assms(2)] using assms(1) by (simp add: floorClamp_def)
qed

theorem zero_delta_frame_witness:
  "useFrame FPSCanvas_colliders (Some \<lparr>isLocked = True\<rparr>) INITIAL_KEYS 0 Player_initial =
     Player_initial"
proof -
  have c: "list_all (\<lambda>c. \<not> intersectsBox (position Player_initial) c) FPSCanvas_colliders"
    by (rule scene_clear) (simp add: Player_initial_def)
  have k: "moveX INITIAL_KEYS = 0 \<and> moveZ INITIAL_KEYS = 0"
    by (simp add: INITIAL_KEYS_def moveX_def moveZ_def Number_def)
  have "useFrame FPSCanvas_colliders (Some \<lparr>isLocked = True\<rparr>) INITIAL_KEYS 0 Player_initial =
      Player_initial\<lparr>onGround := False,
        camera := (camera Player_initial)\<lparr>camera_position := position Player_initial\<rparr>\<rparr>"
    using k by (intro zero_delta_frame c) (simp_all add: Player_initial_def INITIAL_KEYS_jump)
  then show ?thesis by (simp add: Player_initial_def)
qed

text \<open>
  The state the first idle frame leaves at the spawn point is grounded; a frame with
  \<open>delta = 0\<close> and no key held changes it.
\<close>

theorem zero_delta_counterexample:
  "useFrame FPSCanvas_colliders (Some \<lparr>isLocked = True\<rparr>) INITIAL_KEYS 0
     (useFrame FPSCanvas_colliders (Some \<lparr>isLocked = True\<rparr>) INITIAL_KEYS (1 / 60) Player_initial) \<noteq>
   useFrame FPSCanvas_colliders (Some \<lparr>isLocked = True\<rparr>) INITIAL_KEYS (1 / 60) Player_initial"
proof -
  have i: "integrate INITIAL_KEYS 0 (Player_initial\<lparr>onGround := True\<rparr>) =
      (\<lparr>X = 0, Y = 1.6, Z = 6\<rparr>, Player_initial\<lparr>onGround := True\<rparr>)"
    by (simp add: integrate_def moveVelocity_idle Let_def Player_initial_def INITIAL_KEYS_jump
        addScaledVector_def)
  have c: "list_all (\<lambda>c. \<not> intersectsBox \<lparr>X = 0, Y = 1.6, Z = 6\<rparr> c) FPSCanvas_colliders"
    by (rule scene_clear) simp
  have "\<not> onGround (useFrame FPSCanvas_colliders (Some \<lparr>isLocked = True\<rparr>) INITIAL_KEYS 0
     (Player_initial\<lparr>onGround := True\<rparr>))"
    unfolding useFrame_clear[OF i c] by (simp add: floorClamp_def)
  then show ?thesis
    unfolding first_frame by auto
qed


section \<open>Walking for one second\<close>






























end
